theory Spec2Isabelle
  imports Main "HOL-Library.Finite_Map" "HOL-Library.Char_ord" "HOL-Library.List_Lexorder"
begin

section \<open>JavaScript values\<close>

text \<open>
  The reducers of nion work on plain JSON-like data, so the values of the model are the
  JSON values together with \<open>undefined\<close> and the native objects that a plain object
  inherits. An object is a finite map from property names to values: a finite map has no
  insertion order, and nothing below depends on one.

  Scope of the value model:
  \<^item> \<open>Num n\<close> is an integral number of magnitude below \<open>2^53\<close>; fractions, \<open>NaN\<close> and the
    infinities are outside the model;
  \<^item> a plain object inherits the members of \<open>Object.prototype\<close>, so \<open>o[k]\<close> is not
    \<open>undefined\<close> when \<open>k\<close> is \<open>constructor\<close>, \<open>toString\<close>, \<open>__proto__\<close>, ... even if
    \<open>o\<close> has no property of its own under \<open>k\<close>. These members are the values
    \<open>Native n\<close>: the function \<open>Object\<close>, the ten methods of \<open>Object.prototype\<close> and
    \<open>Object.prototype\<close> itself (the value of \<open>o.__proto__\<close>), as ECMAScript with its
    Annex B defines them. What a native function inherits in turn (\<open>call\<close>, \<open>bind\<close>,
    ...), the static methods of \<open>Object\<close>, and what arrays, strings, numbers and
    booleans inherit are not values of the model and read as \<open>undefined\<close>: where the
    source calls such a method (\<open>concat\<close>, \<open>filter\<close>) the call itself is modelled. The
    stores of the properties below are plain objects, and the type maps of an entity
    store are plain objects, so a computed key is read there from a plain object; the
    one property stated for any state has the reducer throw, as it also does when it
    reads \<open>entities\<close> from a member that is not modelled;
  \<^item> an assignment \<open>o[k] = v\<close> creates the own property \<open>k\<close>; the one key for which
    JavaScript does something else is \<open>__proto__\<close>, which is taken not to be a data key
    of the reference store, nor a resource type or an id of a store fragment;
  \<^item> arrays are dense;
  \<^item> objects and arrays have no identity: the model returns the value of the new state,
    and \<open>===\<close> between two objects or two arrays is taken to be false, as it is for
    values parsed from different payloads.
\<close>

datatype native =
    N_Object
  | N_Object_prototype
  | N_hasOwnProperty
  | N_isPrototypeOf
  | N_propertyIsEnumerable
  | N_toLocaleString
  | N_toString
  | N_valueOf
  | N_defineGetter
  | N_defineSetter
  | N_lookupGetter
  | N_lookupSetter

datatype jsval =
    Undefined
  | Null
  | Bool bool
  | Num int
  | Str string
  | Arr "jsval list"
  | Obj "(string, jsval) fmap"
  | Native native

datatype js_error = TypeError | SyntaxError

definition bind_res :: "js_error + 'a \<Rightarrow> ('a \<Rightarrow> js_error + 'b) \<Rightarrow> js_error + 'b" where
  "bind_res r f = (case r of Inl e \<Rightarrow> Inl e | Inr v \<Rightarrow> f v)"

fun fold_res :: "('a \<Rightarrow> 'b \<Rightarrow> js_error + 'b) \<Rightarrow> 'a list \<Rightarrow> 'b \<Rightarrow> js_error + 'b" where
  "fold_res f [] acc = Inr acc"
| "fold_res f (x # xs) acc = bind_res (f x acc) (fold_res f xs)"

fun map_res :: "('a \<Rightarrow> js_error + 'b) \<Rightarrow> 'a list \<Rightarrow> js_error + 'b list" where
  "map_res f [] = Inr []"
| "map_res f (x # xs) = bind_res (f x) (\<lambda>y. bind_res (map_res f xs) (\<lambda>ys. Inr (y # ys)))"

definition nullish :: "jsval \<Rightarrow> bool" where
  "nullish v = (v = Undefined \<or> v = Null)"

text \<open>\<open>ToBoolean\<close>: what \<open>if (v)\<close>, \<open>!v\<close> and \<open>a && b\<close> test.\<close>

fun truthy :: "jsval \<Rightarrow> bool" where
  "truthy Undefined = False"
| "truthy Null = False"
| "truthy (Bool b) = b"
| "truthy (Num n) = (n \<noteq> 0)"
| "truthy (Str s) = (s \<noteq> [])"
| "truthy (Arr xs) = True"
| "truthy (Obj m) = True"
| "truthy (Native n) = True"

text \<open>\<open>a === b\<close> on values of the model. Each native is one object, so two natives
  are identical when they are equal.\<close>

fun strict_eq :: "jsval \<Rightarrow> jsval \<Rightarrow> bool" where
  "strict_eq (Arr xs) b = False"
| "strict_eq (Obj m) b = False"
| "strict_eq a b = (a = b)"

text \<open>The decimal numeral of a natural number, and \<open>ToString\<close>, which a computed
  property key \<open>obj[v]\<close> applies to \<open>v\<close>.\<close>

definition digit :: "nat \<Rightarrow> char" where
  "digit d = ''0123456789'' ! d"

fun decimal :: "nat \<Rightarrow> string" where
  "decimal n = (if 10 \<le> n then decimal (n div 10) @ [digit (n mod 10)] else [digit n])"

declare decimal.simps [simp del]

fun join_comma :: "string list \<Rightarrow> string" where
  "join_comma [] = []"
| "join_comma [s] = s"
| "join_comma (s # t # ss) = s @ '','' @ join_comma (t # ss)"

text \<open>The \<open>name\<close> and the \<open>length\<close> of a native function. The text that \<open>ToString\<close>
  gives for a native function is the one of V8.\<close>

fun native_name :: "native \<Rightarrow> string" where
  "native_name N_Object = ''Object''"
| "native_name N_Object_prototype = []"
| "native_name N_hasOwnProperty = ''hasOwnProperty''"
| "native_name N_isPrototypeOf = ''isPrototypeOf''"
| "native_name N_propertyIsEnumerable = ''propertyIsEnumerable''"
| "native_name N_toLocaleString = ''toLocaleString''"
| "native_name N_toString = ''toString''"
| "native_name N_valueOf = ''valueOf''"
| "native_name N_defineGetter = ''__defineGetter__''"
| "native_name N_defineSetter = ''__defineSetter__''"
| "native_name N_lookupGetter = ''__lookupGetter__''"
| "native_name N_lookupSetter = ''__lookupSetter__''"

fun native_length :: "native \<Rightarrow> int" where
  "native_length N_toLocaleString = 0"
| "native_length N_toString = 0"
| "native_length N_valueOf = 0"
| "native_length N_defineGetter = 2"
| "native_length N_defineSetter = 2"
| "native_length n = 1"

fun to_string :: "jsval \<Rightarrow> string" where
  "to_string Undefined = ''undefined''"
| "to_string Null = ''null''"
| "to_string (Bool b) = (if b then ''true'' else ''false'')"
| "to_string (Num n) =
     (if n < 0 then CHR ''-'' # decimal (nat (- n)) else decimal (nat n))"
| "to_string (Str s) = s"
| "to_string (Arr xs) =
     join_comma (map (\<lambda>v. if v = Undefined \<or> v = Null then [] else to_string v) xs)"
| "to_string (Obj m) = ''[object Object]''"
| "to_string (Native n) =
     (if n = N_Object_prototype then ''[object Object]''
      else ''function '' @ native_name n @ ''() { [native code] }'')"

text \<open>
  The members of \<open>Object.prototype\<close>, by name, and \<open>inherited k\<close>: the value of \<open>o[k]\<close>
  for a plain object \<open>o\<close> that has no property of its own under \<open>k\<close>.
\<close>

definition object_prototype :: "(string \<times> native) list" where
  "object_prototype =
     [(''constructor'', N_Object),
      (''__proto__'', N_Object_prototype),
      (''hasOwnProperty'', N_hasOwnProperty),
      (''isPrototypeOf'', N_isPrototypeOf),
      (''propertyIsEnumerable'', N_propertyIsEnumerable),
      (''toLocaleString'', N_toLocaleString),
      (''toString'', N_toString),
      (''valueOf'', N_valueOf),
      (''__defineGetter__'', N_defineGetter),
      (''__defineSetter__'', N_defineSetter),
      (''__lookupGetter__'', N_lookupGetter),
      (''__lookupSetter__'', N_lookupSetter)]"

definition inherited :: "string \<Rightarrow> jsval" where
  "inherited k = (case map_of object_prototype k of Some n \<Rightarrow> Native n | None \<Rightarrow> Undefined)"

text \<open>
  Reading a property. \<open>own_prop\<close> reads a property the value has of its own:
  a property of an object, an index or the \<open>length\<close> of an array or a string, the
  \<open>name\<close> and the \<open>length\<close> of a native function, \<open>Object.prototype\<close>, and the members
  of \<open>Object.prototype\<close> (whose \<open>__proto__\<close> is \<open>null\<close>). \<open>read_prop\<close> is the read
  \<open>v[k]\<close> on a value that is neither \<open>null\<close> nor \<open>undefined\<close>: on a plain object it
  falls back to what the object inherits. \<open>get_prop\<close> is \<open>v.k\<close> or \<open>v[k]\<close>, which
  throws on \<open>null\<close> and \<open>undefined\<close>.
\<close>

definition index_of_key :: "string \<Rightarrow> nat \<Rightarrow> nat option" where
  "index_of_key k n = find (\<lambda>i. decimal i = k) [0..<n]"

definition native_prop :: "native \<Rightarrow> string \<Rightarrow> jsval" where
  "native_prop n k =
     (if n = N_Object_prototype then (if k = ''__proto__'' then Null else inherited k)
      else if k = ''name'' then Str (native_name n)
      else if k = ''length'' then Num (native_length n)
      else if n = N_Object \<and> k = ''prototype'' then Native N_Object_prototype
      else Undefined)"

fun own_prop :: "jsval \<Rightarrow> string \<Rightarrow> jsval" where
  "own_prop (Obj m) k = (case fmlookup m k of Some v \<Rightarrow> v | None \<Rightarrow> Undefined)"
| "own_prop (Arr xs) k =
     (if k = ''length'' then Num (int (length xs))
      else case index_of_key k (length xs) of Some i \<Rightarrow> xs ! i | None \<Rightarrow> Undefined)"
| "own_prop (Str s) k =
     (if k = ''length'' then Num (int (length s))
      else case index_of_key k (length s) of Some i \<Rightarrow> Str [s ! i] | None \<Rightarrow> Undefined)"
| "own_prop (Native n) k = native_prop n k"
| "own_prop v k = Undefined"

fun read_prop :: "jsval \<Rightarrow> string \<Rightarrow> jsval" where
  "read_prop (Obj m) k = (case fmlookup m k of Some v \<Rightarrow> v | None \<Rightarrow> inherited k)"
| "read_prop v k = own_prop v k"

definition get_prop :: "jsval \<Rightarrow> string \<Rightarrow> js_error + jsval" where
  "get_prop v k = (if nullish v then Inl TypeError else Inr (read_prop v k))"

text \<open>The own enumerable properties that an object spread \<open>{...v}\<close> copies; a native
  has none.\<close>

fun spread :: "jsval \<Rightarrow> (string, jsval) fmap" where
  "spread (Obj m) = m"
| "spread (Arr xs) = fmap_of_list (zip (map decimal [0..<length xs]) xs)"
| "spread (Str s) =
     fmap_of_list (zip (map decimal [0..<length s]) (map (\<lambda>c. Str [c]) s))"
| "spread v = fmempty"

text \<open>\<open>Object.keys(v)\<close> for a value that is not \<open>null\<close> or \<open>undefined\<close>. The keys of an
  object are listed in lexicographic order; the reducers write each key to its own slot,
  so the order of the visit does not show in their result.\<close>

definition own_keys :: "jsval \<Rightarrow> string list" where
  "own_keys v = sorted_list_of_fset (fmdom (spread v))"

text \<open>
  \<open>lodash.get(object, path, default)\<close> for a string \<open>path\<close>. lodash takes the whole
  string as one property name when it does not look like a path (no \<open>.\<close> and no
  \<open>[..]\<close>) or when the object has a property of that very name (\<open>isKey\<close>:
  \<open>value in Object(object)\<close>, so \<open>get({'a.b': 1}, 'a.b')\<close> is \<open>1\<close>); otherwise it
  splits the string into keys and walks them, stopping with \<open>undefined\<close> at a \<open>null\<close>
  or \<open>undefined\<close> on the way. The split is modelled at the dots; bracket segments
  (\<open>a[0]\<close>) are not, and no path of the source has one.
\<close>

fun has_property :: "jsval \<Rightarrow> string \<Rightarrow> bool" where
  "has_property (Obj m) k = (k |\<in>| fmdom m \<or> inherited k \<noteq> Undefined)"
| "has_property (Arr xs) k = (k = ''length'' \<or> index_of_key k (length xs) \<noteq> None)"
| "has_property (Str s) k = (k = ''length'' \<or> index_of_key k (length s) \<noteq> None)"
| "has_property (Native n) k = (native_prop n k \<noteq> Undefined)"
| "has_property v k = False"

definition deep_prop :: "string \<Rightarrow> bool" where
  "deep_prop k =
     (CHR ''.'' \<in> set k \<or> CHR '']'' \<in> set (dropWhile (\<lambda>c. c \<noteq> CHR ''['') k))"

fun split_dots :: "string \<Rightarrow> string list" where
  "split_dots [] = [[]]"
| "split_dots (c # cs) =
     (if c = CHR ''.'' then [] # split_dots cs
      else case split_dots cs of [] \<Rightarrow> [[c]] | w # ws \<Rightarrow> (c # w) # ws)"

definition cast_path :: "string \<Rightarrow> jsval \<Rightarrow> string list" where
  "cast_path key object =
     (if \<not> deep_prop key \<or> has_property object key then [key] else split_dots key)"

fun base_get :: "jsval \<Rightarrow> string list \<Rightarrow> jsval" where
  "base_get v [] = v"
| "base_get v (k # ks) = (if nullish v then Undefined else base_get (read_prop v k) ks)"

definition lodash_get :: "jsval \<Rightarrow> string \<Rightarrow> jsval \<Rightarrow> jsval" where
  "lodash_get object path dflt =
     (let result = (if nullish object then Undefined
                    else base_get object (cast_path path object))
      in if result = Undefined then dflt else result)"

text \<open>
  The (key, value) pairs that \<open>lodash.map(collection, iteratee)\<close> hands to the iteratee:
  the indices of an array-like collection (an array, a string, or an object with a valid
  numeric \<open>length\<close>, but no function), the own keys of any other object, nothing for the
  rest.
\<close>

definition is_function :: "jsval \<Rightarrow> bool" where
  "is_function v = (case v of Native n \<Rightarrow> n \<noteq> N_Object_prototype | _ \<Rightarrow> False)"

fun is_length :: "jsval \<Rightarrow> bool" where
  "is_length (Num n) = (0 \<le> n \<and> n \<le> 9007199254740991)"
| "is_length v = False"

definition is_array_like :: "jsval \<Rightarrow> bool" where
  "is_array_like v =
     (\<not> nullish v \<and> is_length (read_prop v ''length'') \<and> \<not> is_function v)"

definition array_like_length :: "jsval \<Rightarrow> nat" where
  "array_like_length v = (case read_prop v ''length'' of Num n \<Rightarrow> nat n | _ \<Rightarrow> 0)"

definition lodash_entries :: "jsval \<Rightarrow> (jsval \<times> jsval) list" where
  "lodash_entries v =
     (if is_array_like v then
        map (\<lambda>i. (Num (int i), read_prop v (decimal i))) [0..<array_like_length v]
      else map (\<lambda>k. (Str k, read_prop v k)) (own_keys v))"

section \<open>Actions\<close>

text \<open>
  The action type constants come from \<open>../actions/types\<close>; \<open>OTHER_ACTION\<close> stands for
  every action type the reducers do not name. An action is an object with the fields
  \<open>type\<close>, \<open>meta\<close> and \<open>payload\<close>; a field the action lacks reads as \<open>Undefined\<close>.
  So \<open>get(action, 'payload.storeFragment', d)\<close> is \<open>get\<close> of \<open>storeFragment\<close> on the
  payload, and \<open>get(action, 'meta.refToDelete')\<close> is \<open>get\<close> of \<open>refToDelete\<close> on \<open>meta\<close>.
\<close>

datatype action_type =
    JSON_API_REQUEST
  | JSON_API_SUCCESS
  | JSON_API_FAILURE
  | JSON_API_BOOTSTRAP
  | GENERIC_BOOTSTRAP
  | INITIALIZE_DATAKEY
  | UPDATE_ENTITY
  | OTHER_ACTION

record action =
  atype :: action_type
  meta :: jsval
  payload :: jsval

text \<open>A parameter default \<open>(state = initialState)\<close> with \<open>initialState = {}\<close>.\<close>

definition or_empty :: "jsval \<Rightarrow> jsval" where
  "or_empty v = (if v = Undefined then Obj fmempty else v)"

section \<open>The request status reducer\<close>

text \<open>
  \<open>requestsReducer\<close> of \<open>reducers/requests.js\<close>. \<open>Date.now()\<close> is the parameter \<open>now\<close>.
  \<open>existing\<close> is \<open>get(state, 'action.meta.dataKey')\<close>: the path is the literal string,
  not the data key of the action.
\<close>

definition requestsReducer :: "int \<Rightarrow> jsval \<Rightarrow> action \<Rightarrow> js_error + jsval" where
  "requestsReducer now state0 a =
     (let state = or_empty state0;
          existing = lodash_get state ''action.meta.dataKey'' Undefined
      in case atype a of
        JSON_API_REQUEST \<Rightarrow>
          bind_res (get_prop (meta a) ''dataKey'') (\<lambda>dataKey.
          bind_res (get_prop (meta a) ''method'') (\<lambda>method.
            Inr (Obj (fmupd (to_string dataKey)
              (Obj (spread existing ++\<^sub>f fmap_of_list
                [(''status'', Str ''pending''),
                 (''isLoading'', Bool True),
                 (''pending'', method)]))
              (spread state)))))
      | JSON_API_SUCCESS \<Rightarrow>
          bind_res (get_prop (meta a) ''dataKey'') (\<lambda>dataKey.
            Inr (Obj (fmupd (to_string dataKey)
              (Obj (spread existing ++\<^sub>f fmap_of_list
                [(''status'', Str ''success''),
                 (''fetchedAt'', Num now),
                 (''isError'', Bool False),
                 (''isLoaded'', Bool True),
                 (''isLoading'', Bool False)]))
              (spread state))))
      | JSON_API_FAILURE \<Rightarrow>
          bind_res (get_prop (meta a) ''dataKey'') (\<lambda>dataKey.
          bind_res (get_prop (payload a) ''name'') (\<lambda>name.
          bind_res (get_prop (payload a) ''message'') (\<lambda>message.
            Inr (Obj (fmupd (to_string dataKey)
              (Obj (spread existing ++\<^sub>f fmap_of_list
                [(''status'', Str ''error''),
                 (''name'', name),
                 (''errors'', Arr [message]),
                 (''fetchedAt'', Num now),
                 (''isError'', Bool True),
                 (''isLoaded'', Bool False),
                 (''isLoading'', Bool False),
                 (''pending'', Undefined)]))
              (spread state))))))
      | _ \<Rightarrow> Inr state)"

section \<open>The ref normalizer\<close>

text \<open>
  \<open>makeRef(input = {}, options = {})\<close>. The destructuring \<open>({ type, id }) => ...\<close> of an
  element of \<open>data\<close> throws on \<open>null\<close> and \<open>undefined\<close>, like any property read.
  \<open>infer_ref\<close> is the function up to the test of \<open>options.isCollection\<close>: it yields
  \<open>entities\<close>, \<open>isCollection\<close>, \<open>links\<close> and \<open>meta\<close> as they stand at that point.
\<close>

definition type_id_of :: "jsval \<Rightarrow> js_error + jsval" where
  "type_id_of v =
     bind_res (get_prop v ''type'') (\<lambda>type.
     bind_res (get_prop v ''id'') (\<lambda>ident.
       Inr (Obj (fmap_of_list [(''type'', type), (''id'', ident)]))))"

text \<open>The body of \<open>if (toProcess.data) { ... }\<close>: the new \<open>entities\<close> and
  \<open>isCollection\<close> built from the \<open>data\<close> field.\<close>

definition ref_from_data :: "jsval \<Rightarrow> js_error + jsval \<times> jsval" where
  "ref_from_data data =
     (case data of
        Arr ds \<Rightarrow> bind_res (map_res type_id_of ds) (\<lambda>es. Inr (Arr es, Bool True))
      | _ \<Rightarrow> bind_res (type_id_of data) (\<lambda>e. Inr (Arr [e], Bool False)))"

definition infer_ref :: "jsval \<Rightarrow> js_error + jsval \<times> jsval \<times> jsval \<times> jsval" where
  "infer_ref input =
     bind_res (get_prop input ''_ref'') (\<lambda>r.
     let toProcess = (if truthy r then r else input) in
     bind_res (get_prop toProcess ''isCollection'') (\<lambda>isCollection0.
     bind_res (get_prop toProcess ''entities'') (\<lambda>entities0.
     bind_res (get_prop toProcess ''links'') (\<lambda>links.
     bind_res (get_prop toProcess ''meta'') (\<lambda>meta.
     bind_res (get_prop toProcess ''data'') (\<lambda>data.
     bind_res
       (if truthy data then ref_from_data data else Inr (entities0, isCollection0))
       (\<lambda>(entities1, isCollection1).
          if truthy (read_prop toProcess ''type'') \<and> truthy (read_prop toProcess ''id'')
             \<and> truthy (read_prop toProcess ''attributes'')
          then Inr (Arr [Obj (fmap_of_list [(''type'', read_prop toProcess ''type''),
                                            (''id'', read_prop toProcess ''id'')])],
                    Bool False, links, meta)
          else Inr (entities1, isCollection1, links, meta))))))))"

definition makeRef :: "jsval \<Rightarrow> jsval \<Rightarrow> js_error + jsval" where
  "makeRef input0 options0 =
     (let input = or_empty input0; options = or_empty options0 in
      bind_res (infer_ref input) (\<lambda>(entities, isCollection, links, meta).
      bind_res (get_prop options ''isCollection'') (\<lambda>optIsCollection.
        Inr (Obj (fmap_of_list
          [(''entities'', entities),
           (''isCollection'', if truthy optIsCollection then Bool True else isCollection),
           (''links'', links),
           (''meta'', meta)])))))"

section \<open>The entity store reducer\<close>

text \<open>
  \<open>entitiesReducer\<close>. The callback of the inner \<open>map\<close> assigns \<open>newState[type][id]\<close>
  (\<open>assign_entity\<close>), the callback of the outer \<open>map\<close> first copies \<open>newState[type]\<close> and
  then runs the inner \<open>map\<close> (\<open>assign_type\<close>).
\<close>

definition merge_entity :: "jsval \<Rightarrow> jsval \<Rightarrow> jsval \<Rightarrow> jsval \<Rightarrow> jsval" where
  "merge_entity type ident old entity =
     Obj (fmap_of_list
       [(''type'', type),
        (''id'', ident),
        (''attributes'',
           Obj (spread (lodash_get old ''attributes'' (Obj fmempty)) ++\<^sub>f
                spread (lodash_get entity ''attributes'' (Obj fmempty)))),
        (''relationships'',
           Obj (spread (lodash_get old ''relationships'' (Obj fmempty)) ++\<^sub>f
                spread (lodash_get entity ''relationships'' (Obj fmempty))))])"

definition assign_entity ::
  "jsval \<Rightarrow> jsval \<times> jsval \<Rightarrow> (string, jsval) fmap \<Rightarrow> (string, jsval) fmap" where
  "assign_entity type e typeMap =
     (case e of (ident, entity) \<Rightarrow>
        fmupd (to_string ident)
          (merge_entity type ident (read_prop (Obj typeMap) (to_string ident)) entity) typeMap)"

definition assign_type ::
  "jsval \<times> jsval \<Rightarrow> (string, jsval) fmap \<Rightarrow> (string, jsval) fmap" where
  "assign_type t newState =
     (case t of (type, entities) \<Rightarrow>
        fmupd (to_string type)
          (Obj (fold (assign_entity type) (lodash_entries entities)
             (spread (lodash_get (Obj newState) (to_string type) (Obj fmempty)))))
          newState)"

text \<open>
  \<open>delete base[k]\<close> in strict mode (the file is an ES module), giving the value of
  \<open>base\<close> afterwards. The index properties and the \<open>length\<close> of a string, and the
  \<open>length\<close> of an array, cannot be deleted. Deleting an array element leaves a hole,
  which reads as \<open>undefined\<close> and is written so here. In the source the \<open>delete\<close> also
  changes the previous state when \<open>newState[type]\<close> is still the object the previous
  state holds; the model gives the returned state only. Of the own properties of a
  native, only \<open>Object.prototype\<close> cannot be deleted; what a \<open>delete\<close> does to a native
  is not seen in the returned state.
\<close>

fun delete_prop :: "jsval \<Rightarrow> string \<Rightarrow> js_error + jsval" where
  "delete_prop Undefined k = Inl TypeError"
| "delete_prop Null k = Inl TypeError"
| "delete_prop (Obj m) k = Inr (Obj (fmdrop k m))"
| "delete_prop (Arr xs) k =
     (if k = ''length'' then Inl TypeError
      else case index_of_key k (length xs) of
             Some i \<Rightarrow> Inr (Arr (xs[i := Undefined]))
           | None \<Rightarrow> Inr (Arr xs))"
| "delete_prop (Str s) k =
     (if k = ''length'' \<or> index_of_key k (length s) \<noteq> None then Inl TypeError
      else Inr (Str s))"
| "delete_prop (Native n) k =
     (if n = N_Object \<and> k = ''prototype'' then Inl TypeError else Inr (Native n))"
| "delete_prop v k = Inr v"

definition entitiesReducer :: "jsval \<Rightarrow> action \<Rightarrow> js_error + jsval" where
  "entitiesReducer state0 a =
     (let state = or_empty state0 in
      if atype a = JSON_API_SUCCESS \<or> atype a = JSON_API_BOOTSTRAP then
        (let storeFragment = lodash_get (payload a) ''storeFragment'' (Obj fmempty);
             newState = fold assign_type (lodash_entries storeFragment) (spread state);
             entityToDelete = lodash_get (meta a) ''refToDelete'' Undefined
         in if truthy entityToDelete
               \<and> read_prop entityToDelete ''id'' \<noteq> Undefined
               \<and> truthy (read_prop entityToDelete ''type'')
            then
              (let typeKey = to_string (read_prop entityToDelete ''type'');
                   idKey = to_string (read_prop entityToDelete ''id'')
               in bind_res (delete_prop (read_prop (Obj newState) typeKey) idKey)
                    (\<lambda>typeMap. Inr (Obj (if typeKey |\<in>| fmdom newState
                                          then fmupd typeKey typeMap newState
                                          else newState))))
            else Inr (Obj newState))
      else if atype a = UPDATE_ENTITY then
        bind_res (get_prop (payload a) ''type'') (\<lambda>type.
        bind_res (get_prop (payload a) ''id'') (\<lambda>ident.
        bind_res (get_prop (payload a) ''attributes'') (\<lambda>attributes.
        bind_res (get_prop state (to_string type)) (\<lambda>typeMap.
        bind_res (get_prop typeMap (to_string ident)) (\<lambda>entity.
        bind_res (get_prop entity ''attributes'') (\<lambda>oldAttributes.
          let newEntity =
                Obj (fmupd ''attributes'' (Obj (spread oldAttributes ++\<^sub>f spread attributes))
                      (spread entity))
          in Inr (Obj (fmupd (to_string type)
                        (Obj (fmupd (to_string ident) newEntity (spread typeMap)))
                        (spread state)))))))))
      else Inr state)"

section \<open>The reference store reducer\<close>

text \<open>
  \<open>clone\<close> is \<open>JSON.parse(JSON.stringify(input))\<close>: \<open>stringify\<close> leaves out the
  properties whose value is \<open>undefined\<close> and writes \<open>null\<close> for an \<open>undefined\<close>
  array element; \<open>stringify(undefined)\<close> is \<open>undefined\<close>, which \<open>parse\<close> rejects. It
  treats a function like \<open>undefined\<close>, and \<open>Object.prototype\<close>, which has no enumerable
  property, like an empty object.
\<close>

primrec clone_val :: "jsval \<Rightarrow> jsval" where
  "clone_val Undefined = Undefined"
| "clone_val Null = Null"
| "clone_val (Bool b) = Bool b"
| "clone_val (Num n) = Num n"
| "clone_val (Str s) = Str s"
| "clone_val (Arr xs) = Arr (map (\<lambda>v. if v = Undefined then Null else v) (map clone_val xs))"
| "clone_val (Obj m) =
     Obj (fmfilter (\<lambda>k. fmlookup (fmmap clone_val m) k \<noteq> Some Undefined)
            (fmmap clone_val m))"
| "clone_val (Native n) = (if n = N_Object_prototype then Obj fmempty else Undefined)"

definition clone :: "jsval \<Rightarrow> js_error + jsval" where
  "clone input =
     (if clone_val input = Undefined then Inl SyntaxError else Inr (clone_val input))"

text \<open>The callback of \<open>oldEntites.filter\<close>: keep the entity unless both its \<open>type\<close>
  and its \<open>id\<close> are those of the ref to delete.\<close>

definition keeps_entity :: "jsval \<Rightarrow> jsval \<Rightarrow> jsval \<Rightarrow> js_error + bool" where
  "keeps_entity type ident entity =
     bind_res (get_prop entity ''type'') (\<lambda>t.
     bind_res (get_prop entity ''id'') (\<lambda>i.
       Inr (\<not> (strict_eq t type \<and> strict_eq i ident))))"

fun filter_res :: "('a \<Rightarrow> js_error + bool) \<Rightarrow> 'a list \<Rightarrow> js_error + 'a list" where
  "filter_res p [] = Inr []"
| "filter_res p (x # xs) =
     bind_res (p x) (\<lambda>keep.
     bind_res (filter_res p xs) (\<lambda>ys. Inr (if keep then x # ys else ys)))"

text \<open>The body of the \<open>reduce\<close> callback of \<open>deleteRefFromEntities\<close>.\<close>

definition delete_ref_step ::
  "jsval \<Rightarrow> jsval \<Rightarrow> jsval \<Rightarrow> string \<Rightarrow> (string, jsval) fmap
     \<Rightarrow> js_error + (string, jsval) fmap" where
  "delete_ref_step type ident state dataKey memo =
     bind_res (get_prop (read_prop state dataKey) ''entities'') (\<lambda>oldEntites.
       case oldEntites of
         Arr es \<Rightarrow>
           bind_res (filter_res (keeps_entity type ident) es) (\<lambda>kept.
             Inr (fmupd dataKey
                    (Obj (fmupd ''entities'' (Arr kept) (spread (read_prop state dataKey))))
                    memo))
       | _ \<Rightarrow> Inr (fmupd dataKey (read_prop state dataKey) memo))"

definition deleteRefFromEntities :: "jsval \<Rightarrow> jsval \<Rightarrow> js_error + jsval" where
  "deleteRefFromEntities refToDelete0 state0 =
     (let refToDelete = or_empty refToDelete0; state = or_empty state0 in
      bind_res (get_prop refToDelete ''type'') (\<lambda>type.
      bind_res (get_prop refToDelete ''id'') (\<lambda>ident.
        if \<not> truthy ident \<or> \<not> truthy type then Inr state
        else if state = Null then Inl TypeError
        else bind_res (fold_res (delete_ref_step type ident state) (own_keys state) fmempty)
               (\<lambda>memo. Inr (Obj memo)))))"

text \<open>\<open>receiver.concat(arg)\<close>: the array method, the string method, or a call of
  something that is not a function.\<close>

fun call_concat :: "jsval \<Rightarrow> jsval \<Rightarrow> js_error + jsval" where
  "call_concat (Arr xs) arg = Inr (Arr (xs @ (case arg of Arr ys \<Rightarrow> ys | _ \<Rightarrow> [arg])))"
| "call_concat (Str s) arg = Inr (Str (s @ to_string arg))"
| "call_concat v arg = Inl TypeError"

definition refsReducer :: "jsval \<Rightarrow> action \<Rightarrow> js_error + jsval" where
  "refsReducer state0 a =
     (let state = or_empty state0 in
      if atype a = JSON_API_REQUEST then Inr state
      else if atype a = JSON_API_BOOTSTRAP \<or> atype a = JSON_API_SUCCESS then
        bind_res (get_prop (meta a) ''isNextPage'') (\<lambda>isNextPage.
          if truthy isNextPage then
            bind_res (get_prop (payload a) ''newRequestRef'') (\<lambda>nextPageRef.
            bind_res (get_prop (meta a) ''dataKey'') (\<lambda>dataKey.
            bind_res (get_prop state (to_string dataKey)) (\<lambda>oldRef.
            bind_res (get_prop oldRef ''entities'') (\<lambda>oldEntities.
            bind_res (get_prop nextPageRef ''entities'') (\<lambda>newEntities.
            bind_res (call_concat oldEntities newEntities) (\<lambda>entities.
              Inr (Obj (fmupd (to_string dataKey)
                     (Obj (fmupd ''entities'' entities (spread nextPageRef)))
                     (spread state)))))))))
          else
            bind_res (get_prop (meta a) ''refToDelete'') (\<lambda>refToDelete.
              if truthy refToDelete then
                bind_res (deleteRefFromEntities refToDelete state) (\<lambda>s. Inr (Obj (spread s)))
              else
                bind_res (get_prop (meta a) ''dataKey'') (\<lambda>dataKey.
                bind_res (get_prop (payload a) ''newRequestRef'') (\<lambda>newRequestRef.
                  Inr (Obj (fmupd (to_string dataKey) newRequestRef (spread state)))))))
      else if atype a = GENERIC_BOOTSTRAP then
        bind_res (get_prop (meta a) ''dataKey'') (\<lambda>dataKey.
        bind_res (clone (payload a)) (\<lambda>copy.
          Inr (Obj (fmupd (to_string dataKey) copy (spread state)))))
      else if atype a = INITIALIZE_DATAKEY then
        bind_res (get_prop (payload a) ''dataKey'') (\<lambda>dataKey.
        bind_res (get_prop (payload a) ''ref'') (\<lambda>ref.
        bind_res (clone ref) (\<lambda>copy.
          Inr (Obj (fmupd (to_string dataKey) copy (spread state))))))
      else Inr state)"

section \<open>Vocabulary of the properties\<close>

text \<open>The flat-resource test of \<open>makeRef\<close>: \<open>type\<close>, \<open>id\<close> and \<open>attributes\<close> all truthy.\<close>

definition is_flat_resource :: "jsval \<Rightarrow> bool" where
  "is_flat_resource v =
     (truthy (read_prop v ''type'') \<and> truthy (read_prop v ''id'')
      \<and> truthy (read_prop v ''attributes''))"

text \<open>The record the entity store holds for \<open>(t, i)\<close>: the property \<open>i\<close> of the
  property \<open>t\<close> of the store, and \<open>undefined\<close> when the store has nothing under \<open>t\<close>, or
  nothing under \<open>i\<close> there. Only own properties are records: what every object inherits
  is not in the store.\<close>

definition entity_at :: "jsval \<Rightarrow> string \<Rightarrow> string \<Rightarrow> jsval" where
  "entity_at state t i = own_prop (own_prop state t) i"

text \<open>A run of the request status reducer over a list of events, each with the time
  \<open>Date.now()\<close> gives when it is reduced; the run stops at the first exception.\<close>

fun run_requests :: "jsval \<Rightarrow> (int \<times> action) list \<Rightarrow> js_error + jsval" where
  "run_requests s [] = Inr s"
| "run_requests s (e # es) =
     bind_res (requestsReducer (fst e) s (snd e)) (\<lambda>s'. run_requests s' es)"

text \<open>The invariant of the request status store: every entry is an object without a
  field \<open>meta\<close>, and with \<open>isError = false\<close> when its \<open>status\<close> is \<open>success\<close>.\<close>

definition status_record :: "jsval \<Rightarrow> bool" where
  "status_record r =
     (\<exists>rm. r = Obj rm \<and> fmlookup rm ''meta'' = None
        \<and> (fmlookup rm ''status'' = Some (Str ''success'')
             \<longrightarrow> fmlookup rm ''isError'' = Some (Bool False)))"

definition status_store :: "jsval \<Rightarrow> bool" where
  "status_store s = (\<exists>m. s = Obj m \<and> (\<forall>k r. fmlookup m k = Some r \<longrightarrow> status_record r))"








definition entity_store :: "(string, jsval) fmap \<Rightarrow> bool" where
  "entity_store m = (\<forall>t tm. fmlookup m t = Some tm \<longrightarrow> (\<exists>x. tm = Obj x))"

section \<open>Basic facts\<close>

lemma inherited_cases: "inherited k = Undefined \<or> (\<exists>n. inherited k = Native n)"
  by (simp add: inherited_def split: option.splits)

lemma inherited_literals [simp]:
  "inherited ''type'' = Undefined" "inherited ''id'' = Undefined"
  "inherited ''attributes'' = Undefined" "inherited ''relationships'' = Undefined"
  "inherited ''entities'' = Undefined" "inherited ''isCollection'' = Undefined"
  "inherited ''links'' = Undefined" "inherited ''meta'' = Undefined"
  "inherited ''data'' = Undefined" "inherited ''_ref'' = Undefined"
  "inherited ''dataKey'' = Undefined" "inherited ''method'' = Undefined"
  "inherited ''name'' = Undefined" "inherited ''message'' = Undefined"
  "inherited ''isNextPage'' = Undefined" "inherited ''refToDelete'' = Undefined"
  "inherited ''newRequestRef'' = Undefined" "inherited ''storeFragment'' = Undefined"
  "inherited ''ref'' = Undefined" "inherited ''length'' = Undefined"
  "inherited ''action'' = Undefined" "inherited ''action.meta.dataKey'' = Undefined"
  "inherited ''status'' = Undefined" "inherited ''isError'' = Undefined"
  by (simp_all add: inherited_def object_prototype_def)

lemma native_prop_literals [simp]:
  "native_prop n ''attributes'' = Undefined" "native_prop n ''relationships'' = Undefined"
  "native_prop n ''entities'' = Undefined"
  by (simp_all add: native_prop_def)

lemma bind_res_Inr [simp]: "bind_res (Inr v) f = f v"
  by (simp add: bind_res_def)

lemma bind_res_Inl [simp]: "bind_res (Inl e) f = Inl e"
  by (simp add: bind_res_def)

lemma get_prop_Obj [simp]: "get_prop (Obj m) k = Inr (read_prop (Obj m) k)"
  by (simp add: get_prop_def nullish_def)

lemma get_prop_nullish: "nullish v \<Longrightarrow> get_prop v k = Inl TypeError"
  by (simp add: get_prop_def)

lemma get_prop_not_nullish: "\<not> nullish v \<Longrightarrow> get_prop v k = Inr (read_prop v k)"
  by (simp add: get_prop_def)

lemma or_empty_Obj [simp]: "or_empty (Obj m) = Obj m"
  by (simp add: or_empty_def)

lemma or_empty_Undefined [simp]: "or_empty Undefined = Obj fmempty"
  by (simp add: or_empty_def)

lemma or_empty_not_nullish: "v \<noteq> Null \<Longrightarrow> \<not> nullish (or_empty v)"
  by (simp add: or_empty_def nullish_def)

lemma read_prop_nullish [simp]: "nullish v \<Longrightarrow> read_prop v k = Undefined"
  by (auto simp: nullish_def)

lemma read_prop_truthy_base: "truthy (read_prop v k) \<Longrightarrow> \<not> nullish v"
  by (auto simp: nullish_def)

lemma truthy_or_empty: "truthy v \<Longrightarrow> or_empty v = v"
  by (auto simp: or_empty_def)

lemma index_of_key_0 [simp]: "index_of_key k 0 = None"
  by (simp add: index_of_key_def)

lemma lodash_get_plain:
  "\<not> deep_prop k \<Longrightarrow>
   lodash_get v k d = (if read_prop v k = Undefined then d else read_prop v k)"
  by (cases "nullish v") (simp_all add: lodash_get_def cast_path_def)

lemma plain_literals [simp]:
  "\<not> deep_prop ''attributes''" "\<not> deep_prop ''relationships''"
  "\<not> deep_prop ''storeFragment''" "\<not> deep_prop ''refToDelete''"
  by (simp_all add: deep_prop_def)

lemma lodash_get_single: "\<not> deep_prop k \<Longrightarrow> lodash_get v k Undefined = read_prop v k"
  by (simp add: lodash_get_plain)

lemma lodash_entries_empty [simp]: "lodash_entries (Obj fmempty) = []"
  by (simp add: lodash_entries_def is_array_like_def own_keys_def sorted_list_of_fset.rep_eq)



lemma entity_at_Obj:
  "entity_at (Obj m) t i = (case fmlookup m t of None \<Rightarrow> Undefined | Some tm \<Rightarrow> own_prop tm i)"
  by (simp add: entity_at_def split: option.splits)

lemma read_prop_own: "fmlookup m k = Some v \<Longrightarrow> read_prop (Obj m) k = v"
  by simp

lemma read_prop_not_own: "fmlookup m k = None \<Longrightarrow> read_prop (Obj m) k = inherited k"
  by simp

section \<open>The reference store: delete by ref\<close>










section \<open>The reference store: appending the next page\<close>

text \<open>
  C2. When the data key holds a reference whose \<open>entities\<close> is a list and the event has
  \<open>isNextPage\<close> set and carries a new reference whose \<open>entities\<close> is a list, the key's
  new reference is the new reference with \<open>entities\<close> replaced by the old list followed
  by the new list; its \<open>links\<close> and \<open>meta\<close> are those of the new reference, and every
  other data key keeps its reference.
\<close>

theorem next_page_appends:
  assumes "atype a = JSON_API_SUCCESS \<or> atype a = JSON_API_BOOTSTRAP"
    and "truthy (read_prop (meta a) ''isNextPage'')"
    and "k = to_string (read_prop (meta a) ''dataKey'')"
    and "fmlookup m k = Some (Obj old)"
    and "fmlookup old ''entities'' = Some (Arr es)"
    and "read_prop (payload a) ''newRequestRef'' = Obj new"
    and "fmlookup new ''entities'' = Some (Arr es')"
  shows "refsReducer (Obj m) a =
           Inr (Obj (fmupd k (Obj (fmupd ''entities'' (Arr (es @ es')) new)) m))
       \<and> read_prop (Obj (fmupd ''entities'' (Arr (es @ es')) new)) ''links''
           = read_prop (Obj new) ''links''
       \<and> read_prop (Obj (fmupd ''entities'' (Arr (es @ es')) new)) ''meta''
           = read_prop (Obj new) ''meta''"
proof -
  have m: "\<not> nullish (meta a)"
    using assms(2) by (rule read_prop_truthy_base)
  have p: "\<not> nullish (payload a)"
    using assms(6) by (auto simp: nullish_def)
  show ?thesis
    using assms m p by (auto simp: refsReducer_def get_prop_not_nullish)
qed

theorem next_page_appends_witness:
  "refsReducer
     (Obj (fmap_of_list [(''feed'', Obj (fmap_of_list
        [(''entities'', Arr [Obj (fmap_of_list [(''type'', Str ''post''), (''id'', Str ''1'')]),
                             Obj (fmap_of_list [(''type'', Str ''post''), (''id'', Str ''2'')])]),
         (''isCollection'', Bool True)]))]))
     \<lparr>atype = JSON_API_SUCCESS,
      meta = Obj (fmap_of_list [(''dataKey'', Str ''feed''), (''isNextPage'', Bool True)]),
      payload = Obj (fmap_of_list [(''newRequestRef'', Obj (fmap_of_list
        [(''entities'', Arr [Obj (fmap_of_list [(''type'', Str ''post''), (''id'', Str ''3'')])])]))])\<rparr>
   = Inr (Obj (fmupd ''feed''
       (Obj (fmupd ''entities''
          (Arr [Obj (fmap_of_list [(''type'', Str ''post''), (''id'', Str ''1'')]),
                Obj (fmap_of_list [(''type'', Str ''post''), (''id'', Str ''2'')]),
                Obj (fmap_of_list [(''type'', Str ''post''), (''id'', Str ''3'')])])
          (fmap_of_list
            [(''entities'', Arr [Obj (fmap_of_list [(''type'', Str ''post''), (''id'', Str ''3'')])])])))
       (fmap_of_list [(''feed'', Obj (fmap_of_list
        [(''entities'', Arr [Obj (fmap_of_list [(''type'', Str ''post''), (''id'', Str ''1'')]),
                             Obj (fmap_of_list [(''type'', Str ''post''), (''id'', Str ''2'')])]),
         (''isCollection'', Bool True)]))])))"
  using next_page_appends [of
     "\<lparr>atype = JSON_API_SUCCESS,
      meta = Obj (fmap_of_list [(''dataKey'', Str ''feed''), (''isNextPage'', Bool True)]),
      payload = Obj (fmap_of_list [(''newRequestRef'', Obj (fmap_of_list
        [(''entities'', Arr [Obj (fmap_of_list [(''type'', Str ''post''), (''id'', Str ''3'')])])]))])\<rparr>"
     "''feed''"
     "fmap_of_list [(''feed'', Obj (fmap_of_list
        [(''entities'', Arr [Obj (fmap_of_list [(''type'', Str ''post''), (''id'', Str ''1'')]),
                             Obj (fmap_of_list [(''type'', Str ''post''), (''id'', Str ''2'')])]),
         (''isCollection'', Bool True)]))]"
     "fmap_of_list
        [(''entities'', Arr [Obj (fmap_of_list [(''type'', Str ''post''), (''id'', Str ''1'')]),
                             Obj (fmap_of_list [(''type'', Str ''post''), (''id'', Str ''2'')])]),
         (''isCollection'', Bool True)]"
     "[Obj (fmap_of_list [(''type'', Str ''post''), (''id'', Str ''1'')]),
       Obj (fmap_of_list [(''type'', Str ''post''), (''id'', Str ''2'')])]"
     "fmap_of_list
        [(''entities'', Arr [Obj (fmap_of_list [(''type'', Str ''post''), (''id'', Str ''3'')])])]"
     "[Obj (fmap_of_list [(''type'', Str ''post''), (''id'', Str ''3'')])]"]
  by simp

section \<open>The request status reducer: the prior record\<close>

lemma existing_direct:
  "fmlookup m ''action.meta.dataKey'' = Some r \<Longrightarrow>
   lodash_get (Obj m) ''action.meta.dataKey'' Undefined = r"
  by (auto simp: lodash_get_def cast_path_def nullish_def fmlookup_dom_iff)

lemma existing_walk:
  "fmlookup m ''action.meta.dataKey'' = None \<Longrightarrow>
   lodash_get (Obj m) ''action.meta.dataKey'' Undefined
     = base_get (Obj m) [''action'', ''meta'', ''dataKey'']"
  by (simp add: lodash_get_def cast_path_def deep_prop_def nullish_def fmlookup_dom_iff
      del: base_get.simps)

lemma existing_missing:
  "fmlookup m ''action'' = None \<Longrightarrow> fmlookup m ''action.meta.dataKey'' = None \<Longrightarrow>
   lodash_get (Obj m) ''action.meta.dataKey'' Undefined = Undefined"
  by (simp add: existing_walk nullish_def)

lemma requests_transitions:
  assumes "lodash_get (Obj m) ''action.meta.dataKey'' Undefined = existing"
    and "\<not> nullish (meta a)"
  shows "(atype a = JSON_API_REQUEST \<longrightarrow>
            requestsReducer now (Obj m) a =
              Inr (Obj (fmupd (to_string (read_prop (meta a) ''dataKey''))
                (Obj (spread existing ++\<^sub>f fmap_of_list
                  [(''status'', Str ''pending''),
                   (''isLoading'', Bool True),
                   (''pending'', read_prop (meta a) ''method'')])) m)))
       \<and> (atype a = JSON_API_SUCCESS \<longrightarrow>
            requestsReducer now (Obj m) a =
              Inr (Obj (fmupd (to_string (read_prop (meta a) ''dataKey''))
                (Obj (spread existing ++\<^sub>f fmap_of_list
                  [(''status'', Str ''success''),
                   (''fetchedAt'', Num now),
                   (''isError'', Bool False),
                   (''isLoaded'', Bool True),
                   (''isLoading'', Bool False)])) m)))
       \<and> (atype a = JSON_API_FAILURE \<longrightarrow> \<not> nullish (payload a) \<longrightarrow>
            requestsReducer now (Obj m) a =
              Inr (Obj (fmupd (to_string (read_prop (meta a) ''dataKey''))
                (Obj (spread existing ++\<^sub>f fmap_of_list
                  [(''status'', Str ''error''),
                   (''name'', read_prop (payload a) ''name''),
                   (''errors'', Arr [read_prop (payload a) ''message'']),
                   (''fetchedAt'', Num now),
                   (''isError'', Bool True),
                   (''isLoaded'', Bool False),
                   (''isLoading'', Bool False),
                   (''pending'', Undefined)])) m)))"
  using assms
  by (simp add: requestsReducer_def get_prop_not_nullish)

text \<open>
  C5, as stated, fails. \<open>get(state, 'action.meta.dataKey')\<close> does not only miss in the
  states without a field \<open>action\<close>: when the store has an entry whose data key is the
  string \<open>action.meta.dataKey\<close> itself, lodash reads that entry, and \<open>existing\<close> is its
  record. The store below has no field \<open>action\<close>; it holds the record of a request sent
  with method \<open>GET\<close> for that data key, and the success event for the same key produces
  a record that still has \<open>pending: 'GET'\<close>.
\<close>

theorem requests_existing_hit_counterexample:
  "fmlookup (fmap_of_list [(''action.meta.dataKey'', Obj (fmap_of_list
        [(''status'', Str ''pending''), (''isLoading'', Bool True),
         (''pending'', Str ''GET'')]))]) ''action'' = None
   \<and> requestsReducer 7
     (Obj (fmap_of_list [(''action.meta.dataKey'', Obj (fmap_of_list
        [(''status'', Str ''pending''), (''isLoading'', Bool True),
         (''pending'', Str ''GET'')]))]))
     \<lparr>atype = JSON_API_SUCCESS,
      meta = Obj (fmap_of_list [(''dataKey'', Str ''action.meta.dataKey'')]),
      payload = Undefined\<rparr>
   = Inr (Obj (fmap_of_list [(''action.meta.dataKey'',
       Obj (fmap_of_list
               [(''status'', Str ''pending''), (''isLoading'', Bool True),
                (''pending'', Str ''GET'')] ++\<^sub>f
             fmap_of_list
               [(''status'', Str ''success''), (''fetchedAt'', Num 7),
                (''isError'', Bool False), (''isLoaded'', Bool True),
                (''isLoading'', Bool False)]))]))
   \<and> fmlookup
        (fmap_of_list
           [(''status'', Str ''pending''), (''isLoading'', Bool True),
            (''pending'', Str ''GET'')] ++\<^sub>f
         fmap_of_list
           [(''status'', Str ''success''), (''fetchedAt'', Num 7),
            (''isError'', Bool False), (''isLoaded'', Bool True),
            (''isLoading'', Bool False)]) ''pending'' = Some (Str ''GET'')"
  by (simp add: requestsReducer_def lodash_get_def cast_path_def nullish_def)

text \<open>
  C5, amended. In a state with no top-level field \<open>action\<close> and no top-level field
  \<open>action.meta.dataKey\<close>, \<open>existing\<close> is \<open>undefined\<close>, so each of the three transitions
  stores under the data key a record made of exactly the fields the transition sets,
  whatever record the key held before: the record of a success has no \<open>pending\<close> field.
\<close>

theorem requests_prior_record_not_merged:
  assumes "fmlookup m ''action'' = None" and "fmlookup m ''action.meta.dataKey'' = None"
    and "\<not> nullish (meta a)"
  shows "(atype a = JSON_API_REQUEST \<longrightarrow>
            requestsReducer now (Obj m) a =
              Inr (Obj (fmupd (to_string (read_prop (meta a) ''dataKey''))
                (Obj (fmap_of_list
                  [(''status'', Str ''pending''),
                   (''isLoading'', Bool True),
                   (''pending'', read_prop (meta a) ''method'')])) m)))
       \<and> (atype a = JSON_API_SUCCESS \<longrightarrow>
            requestsReducer now (Obj m) a =
              Inr (Obj (fmupd (to_string (read_prop (meta a) ''dataKey''))
                (Obj (fmap_of_list
                  [(''status'', Str ''success''),
                   (''fetchedAt'', Num now),
                   (''isError'', Bool False),
                   (''isLoaded'', Bool True),
                   (''isLoading'', Bool False)])) m)))
       \<and> (atype a = JSON_API_FAILURE \<longrightarrow> \<not> nullish (payload a) \<longrightarrow>
            requestsReducer now (Obj m) a =
              Inr (Obj (fmupd (to_string (read_prop (meta a) ''dataKey''))
                (Obj (fmap_of_list
                  [(''status'', Str ''error''),
                   (''name'', read_prop (payload a) ''name''),
                   (''errors'', Arr [read_prop (payload a) ''message'']),
                   (''fetchedAt'', Num now),
                   (''isError'', Bool True),
                   (''isLoaded'', Bool False),
                   (''isLoading'', Bool False),
                   (''pending'', Undefined)])) m)))"
  using requests_transitions [OF existing_missing [OF assms(1,2)] assms(3), of now]
  by simp

text \<open>The key \<open>feed\<close> holds the record of a request sent with method \<open>GET\<close>; the
  success event replaces it by a record without \<open>pending\<close>.\<close>

theorem requests_prior_record_not_merged_witness:
  "requestsReducer 7
     (Obj (fmap_of_list [(''feed'', Obj (fmap_of_list
        [(''status'', Str ''pending''), (''isLoading'', Bool True),
         (''pending'', Str ''GET'')]))]))
     \<lparr>atype = JSON_API_SUCCESS, meta = Obj (fmap_of_list [(''dataKey'', Str ''feed'')]),
      payload = Undefined\<rparr>
   = Inr (Obj (fmupd ''feed''
       (Obj (fmap_of_list
          [(''status'', Str ''success''), (''fetchedAt'', Num 7), (''isError'', Bool False),
           (''isLoaded'', Bool True), (''isLoading'', Bool False)]))
       (fmap_of_list [(''feed'', Obj (fmap_of_list
          [(''status'', Str ''pending''), (''isLoading'', Bool True),
           (''pending'', Str ''GET'')]))])))
   \<and> fmlookup (fmap_of_list
          [(''status'', Str ''success''), (''fetchedAt'', Num 7), (''isError'', Bool False),
           (''isLoaded'', Bool True), (''isLoading'', Bool False)]) ''pending'' = None"
  using requests_prior_record_not_merged [of
     "fmap_of_list [(''feed'', Obj (fmap_of_list
        [(''status'', Str ''pending''), (''isLoading'', Bool True),
         (''pending'', Str ''GET'')]))]"
     "\<lparr>atype = JSON_API_SUCCESS, meta = Obj (fmap_of_list [(''dataKey'', Str ''feed'')]),
      payload = Undefined\<rparr>" 7]
  by (simp add: nullish_def)

section \<open>The request status reducer: entries persist, success is not an error\<close>

lemma status_store_existing:
  assumes "status_store (Obj m)"
  shows "lodash_get (Obj m) ''action.meta.dataKey'' Undefined = Undefined
       \<or> status_record (lodash_get (Obj m) ''action.meta.dataKey'' Undefined)"
proof (cases "fmlookup m ''action.meta.dataKey''")
  case (Some r)
  then have "status_record r"
    using assms by (auto simp: status_store_def)
  then show ?thesis
    using Some by (simp add: existing_direct)
next
  case None
  show ?thesis
  proof (cases "fmlookup m ''action''")
    case n: None
    then show ?thesis using None by (simp add: existing_missing)
  next
    case (Some r)
    then have "status_record r"
      using assms by (auto simp: status_store_def)
    then show ?thesis
      using Some None by (auto simp: existing_walk status_record_def nullish_def)
  qed
qed

lemma status_store_upd:
  "status_store (Obj m) \<Longrightarrow> status_record r \<Longrightarrow> status_store (Obj (fmupd k r m))"
  by (auto simp: status_store_def)

lemma status_record_merge:
  assumes "ex = Undefined \<or> status_record ex"
    and "fmlookup lit ''meta'' = None"
    and "fmlookup lit ''status'' = Some (Str ''success'')
           \<longrightarrow> fmlookup lit ''isError'' = Some (Bool False)"
    and "fmlookup lit ''status'' \<noteq> None"
  shows "status_record (Obj (spread ex ++\<^sub>f lit))"
  using assms by (auto simp: status_record_def fmlookup_dom_iff)

lemma requests_throws:
  "nullish (meta a) \<Longrightarrow>
   atype a = JSON_API_REQUEST \<or> atype a = JSON_API_SUCCESS \<or> atype a = JSON_API_FAILURE \<Longrightarrow>
   requestsReducer now s a = Inl TypeError"
  by (auto simp: requestsReducer_def Let_def get_prop_nullish)

lemma failure_throws:
  "nullish (payload a) \<Longrightarrow> atype a = JSON_API_FAILURE \<Longrightarrow>
   requestsReducer now s a = Inl TypeError"
  by (cases "nullish (meta a)") (auto simp: requestsReducer_def Let_def get_prop_def)

lemma requests_other:
  "atype a \<noteq> JSON_API_REQUEST \<Longrightarrow> atype a \<noteq> JSON_API_SUCCESS \<Longrightarrow>
   atype a \<noteq> JSON_API_FAILURE \<Longrightarrow> requestsReducer now (Obj m) a = Inr (Obj m)"
  by (cases "atype a") (auto simp: requestsReducer_def)

lemma requests_result:
  assumes "status_store (Obj m)" and "requestsReducer now (Obj m) a = Inr s'"
  shows "s' = Obj m \<or> (\<exists>k r. s' = Obj (fmupd k r m) \<and> status_record r)"
proof -
  let ?ex = "lodash_get (Obj m) ''action.meta.dataKey'' Undefined"
  have ex: "?ex = Undefined \<or> status_record ?ex"
    using assms(1) by (rule status_store_existing)
  consider (req) "atype a = JSON_API_REQUEST" | (suc) "atype a = JSON_API_SUCCESS"
    | (fail) "atype a = JSON_API_FAILURE"
    | (other) "atype a \<noteq> JSON_API_REQUEST" "atype a \<noteq> JSON_API_SUCCESS"
        "atype a \<noteq> JSON_API_FAILURE"
    by blast
  then show ?thesis
  proof cases
    case req
    then have m: "\<not> nullish (meta a)"
      using assms(2) requests_throws [of a now "Obj m"] by auto
    have r: "status_record (Obj (spread ?ex ++\<^sub>f fmap_of_list
                  [(''status'', Str ''pending''),
                   (''isLoading'', Bool True),
                   (''pending'', read_prop (meta a) ''method'')]))"
      using ex by (rule status_record_merge) simp_all
    show ?thesis
      using requests_transitions [OF refl m, where now = now] req assms(2) r by auto
  next
    case suc
    then have m: "\<not> nullish (meta a)"
      using assms(2) requests_throws [of a now "Obj m"] by auto
    have r: "status_record (Obj (spread ?ex ++\<^sub>f fmap_of_list
                  [(''status'', Str ''success''),
                   (''fetchedAt'', Num now),
                   (''isError'', Bool False),
                   (''isLoaded'', Bool True),
                   (''isLoading'', Bool False)]))"
      using ex by (rule status_record_merge) simp_all
    show ?thesis
      using requests_transitions [OF refl m, where now = now] suc assms(2) r by auto
  next
    case fail
    then have m: "\<not> nullish (meta a)"
      using assms(2) requests_throws [of a now "Obj m"] by auto
    have p: "\<not> nullish (payload a)"
      using assms(2) fail failure_throws [of a now "Obj m"] by auto
    have r: "status_record (Obj (spread ?ex ++\<^sub>f fmap_of_list
                  [(''status'', Str ''error''),
                   (''name'', read_prop (payload a) ''name''),
                   (''errors'', Arr [read_prop (payload a) ''message'']),
                   (''fetchedAt'', Num now),
                   (''isError'', Bool True),
                   (''isLoaded'', Bool False),
                   (''isLoading'', Bool False),
                   (''pending'', Undefined)]))"
      using ex by (rule status_record_merge) simp_all
    show ?thesis
      using requests_transitions [OF refl m, where now = now] fail p assms(2) r by auto
  next
    case other
    then show ?thesis
      using assms(2) requests_other [of a now m] by simp
  qed
qed

lemma requests_step:
  assumes "status_store s" and "requestsReducer now s a = Inr s'"
  shows "status_store s' \<and> fmdom (spread s) |\<subseteq>| fmdom (spread s')"
proof -
  obtain m where m: "s = Obj m" using assms(1) by (auto simp: status_store_def)
  have "s' = Obj m \<or> (\<exists>k r. s' = Obj (fmupd k r m) \<and> status_record r)"
    using assms m requests_result by simp
  then show ?thesis
    using assms(1) m status_store_upd by auto
qed

lemma run_requests_inv:
  "status_store s \<Longrightarrow> run_requests s evs = Inr s' \<Longrightarrow>
   status_store s' \<and> fmdom (spread s) |\<subseteq>| fmdom (spread s')"
proof (induction evs arbitrary: s)
  case Nil
  then show ?case by simp
next
  case (Cons e evs)
  then obtain s1 where s1: "requestsReducer (fst e) s (snd e) = Inr s1"
      and r: "run_requests s1 evs = Inr s'"
    by (auto simp: bind_res_def split: sum.splits)
  have "status_store s1 \<and> fmdom (spread s) |\<subseteq>| fmdom (spread s1)"
    using Cons.prems(1) s1 by (rule requests_step)
  moreover from this have "status_store s' \<and> fmdom (spread s1) |\<subseteq>| fmdom (spread s')"
    using Cons.IH r by blast
  ultimately show ?case by blast
qed

lemma status_store_empty: "status_store (Obj fmempty)"
  by (simp add: status_store_def)

text \<open>
  C4. Let \<open>s\<close> be a state of the request status store reached from the empty store by
  any sequence of actions (request-sent, success and failure events among them) and
  \<open>s'\<close> a state reached from \<open>s\<close> by any further sequence. Every data key with an entry
  in \<open>s\<close> has one in \<open>s'\<close>, and every entry of \<open>s'\<close> whose \<open>status\<close> is \<open>success\<close> has
  \<open>isError = false\<close>.
\<close>

theorem requests_entries_persist_success_not_error:
  assumes "run_requests (Obj fmempty) evs = Inr s" and "run_requests s evs' = Inr s'"
  shows "(\<forall>k. k |\<in>| fmdom (spread s) \<longrightarrow> k |\<in>| fmdom (spread s'))
       \<and> (\<forall>k r. fmlookup (spread s') k = Some r \<longrightarrow> read_prop r ''status'' = Str ''success''
             \<longrightarrow> read_prop r ''isError'' = Bool False)"
proof -
  have s: "status_store s"
    using status_store_empty assms(1) run_requests_inv by blast
  then have s': "status_store s'" and sub: "fmdom (spread s) |\<subseteq>| fmdom (spread s')"
    using assms(2) run_requests_inv by blast+
  have "\<forall>k r. fmlookup (spread s') k = Some r \<longrightarrow> read_prop r ''status'' = Str ''success''
             \<longrightarrow> read_prop r ''isError'' = Bool False"
    using s' by (fastforce simp: status_store_def status_record_def split: option.splits)
  then show ?thesis using sub by blast
qed


theorem requests_entries_persist_success_not_error_witness:
  "''feed'' |\<in>| fmdom (spread (Obj (fmap_of_list [(''feed'', Obj (fmap_of_list
        [(''status'', Str ''success''), (''fetchedAt'', Num 2), (''isError'', Bool False),
         (''isLoaded'', Bool True), (''isLoading'', Bool False)]))])))
   \<and> read_prop (Obj (fmap_of_list
        [(''status'', Str ''success''), (''fetchedAt'', Num 2), (''isError'', Bool False),
         (''isLoaded'', Bool True), (''isLoading'', Bool False)])) ''isError'' = Bool False"
proof -
  let ?req = "\<lparr>atype = JSON_API_REQUEST,
      meta = Obj (fmap_of_list [(''dataKey'', Str ''feed''), (''method'', Str ''GET'')]),
      payload = Undefined\<rparr>"
  let ?suc = "\<lparr>atype = JSON_API_SUCCESS,
      meta = Obj (fmap_of_list [(''dataKey'', Str ''feed'')]), payload = Undefined\<rparr>"
  let ?s = "Obj (fmap_of_list [(''feed'', Obj (fmap_of_list
        [(''status'', Str ''pending''), (''isLoading'', Bool True),
         (''pending'', Str ''GET'')]))])"
  let ?s' = "Obj (fmap_of_list [(''feed'', Obj (fmap_of_list
        [(''status'', Str ''success''), (''fetchedAt'', Num 2), (''isError'', Bool False),
         (''isLoaded'', Bool True), (''isLoading'', Bool False)]))])"
  have 1: "run_requests (Obj fmempty) [(1, ?req)] = Inr ?s"
    by (simp add: requestsReducer_def existing_missing)
  have 2: "run_requests ?s [(2, ?suc)] = Inr ?s'"
    by (simp add: requestsReducer_def existing_missing)
  show ?thesis
    using requests_entries_persist_success_not_error [OF 1 2] by simp
qed

section \<open>The ref normalizer: precedence of its rules\<close>

text \<open>
  C6, as stated, fails: the flat-resource test is a second \<open>if\<close>, not an \<open>else\<close> of the
  \<open>data\<close> test, so it runs after it and overwrites what the \<open>data\<close> field gave. The input
  has a \<open>data\<close> array holding \<open>(b,2)\<close> and top-level \<open>type\<close>, \<open>id\<close>, \<open>attributes\<close>; the
  result points at \<open>(a,1)\<close> and is not a collection.
\<close>

theorem makeRef_flat_resource_overrides_data_counterexample:
  "makeRef (Obj (fmap_of_list
       [(''data'', Arr [Obj (fmap_of_list [(''type'', Str ''b''), (''id'', Str ''2'')])]),
        (''type'', Str ''a''), (''id'', Str ''1''), (''attributes'', Obj fmempty)])) Undefined
     = Inr (Obj (fmap_of_list
         [(''entities'', Arr [Obj (fmap_of_list [(''type'', Str ''a''), (''id'', Str ''1'')])]),
          (''isCollection'', Bool False), (''links'', Undefined), (''meta'', Undefined)]))
   \<and> ref_from_data (Arr [Obj (fmap_of_list [(''type'', Str ''b''), (''id'', Str ''2'')])])
     = Inr (Arr [Obj (fmap_of_list [(''type'', Str ''b''), (''id'', Str ''2'')])], Bool True)"
  by (simp add: makeRef_def infer_ref_def ref_from_data_def type_id_of_def)

text \<open>
  C6, amended. For an input without a backing reference whose \<open>data\<close> field is truthy
  and can be read (\<open>ref_from_data\<close> returns): when \<open>type\<close>, \<open>id\<close> and \<open>attributes\<close> are
  not all truthy, \<open>entities\<close> is the list built from \<open>data\<close> and \<open>isCollection\<close> is the
  one built from \<open>data\<close> unless the option forces \<open>true\<close>; when all three are truthy, the
  flat-resource rule wins: \<open>entities\<close> is the single top-level \<open>(type,id)\<close> and
  \<open>isCollection\<close> is \<open>false\<close> unless the option forces \<open>true\<close>. \<open>links\<close> and \<open>meta\<close> are
  those of the input.
\<close>

theorem makeRef_data_unless_flat_resource:
  assumes "input \<noteq> Null" and "options \<noteq> Null"
    and "\<not> truthy (read_prop (or_empty input) ''_ref'')"
    and "truthy (read_prop (or_empty input) ''data'')"
    and "ref_from_data (read_prop (or_empty input) ''data'') = Inr (es, c)"
  shows "makeRef input options =
     Inr (Obj (fmap_of_list
       [(''entities'',
           if is_flat_resource (or_empty input)
           then Arr [Obj (fmap_of_list [(''type'', read_prop (or_empty input) ''type''),
                                        (''id'', read_prop (or_empty input) ''id'')])]
           else es),
        (''isCollection'',
           if truthy (read_prop (or_empty options) ''isCollection'') then Bool True
           else if is_flat_resource (or_empty input) then Bool False else c),
        (''links'', read_prop (or_empty input) ''links''),
        (''meta'', read_prop (or_empty input) ''meta'')]))"
  using assms
  by (simp add: makeRef_def infer_ref_def Let_def is_flat_resource_def get_prop_not_nullish
      or_empty_not_nullish)

theorem makeRef_data_unless_flat_resource_witness:
  "makeRef (Obj (fmap_of_list
       [(''data'', Arr [Obj (fmap_of_list [(''type'', Str ''b''), (''id'', Str ''2'')])]),
        (''links'', Str ''next'')])) Undefined
     = Inr (Obj (fmap_of_list
         [(''entities'', Arr [Obj (fmap_of_list [(''type'', Str ''b''), (''id'', Str ''2'')])]),
          (''isCollection'', Bool True), (''links'', Str ''next''), (''meta'', Undefined)]))"
  using makeRef_data_unless_flat_resource [of
    "Obj (fmap_of_list
       [(''data'', Arr [Obj (fmap_of_list [(''type'', Str ''b''), (''id'', Str ''2'')])]),
        (''links'', Str ''next'')])" Undefined
    "Arr [Obj (fmap_of_list [(''type'', Str ''b''), (''id'', Str ''2'')])]" "Bool True"]
  by (simp add: ref_from_data_def type_id_of_def is_flat_resource_def)

text \<open>
  C7, as stated, fails: the option is only tested for truthiness and can only set
  \<open>isCollection\<close> to \<open>true\<close>. With a \<open>data\<close> array and the option \<open>isCollection: false\<close>
  the result has \<open>isCollection = true\<close>.
\<close>

theorem makeRef_isCollection_false_ignored_counterexample:
  "makeRef (Obj (fmap_of_list
       [(''data'', Arr [Obj (fmap_of_list [(''type'', Str ''b''), (''id'', Str ''2'')])])]))
     (Obj (fmap_of_list [(''isCollection'', Bool False)]))
     = Inr (Obj (fmap_of_list
         [(''entities'', Arr [Obj (fmap_of_list [(''type'', Str ''b''), (''id'', Str ''2'')])]),
          (''isCollection'', Bool True), (''links'', Undefined), (''meta'', Undefined)]))"
  by (simp add: makeRef_def infer_ref_def ref_from_data_def type_id_of_def)

text \<open>
  C7, amended. Whenever \<open>makeRef\<close> returns: a truthy \<open>isCollection\<close> option makes the
  result's \<open>isCollection\<close> \<open>true\<close>, whatever was inferred; an option that is absent or
  falsy (\<open>false\<close> included) changes nothing, the result is the one \<open>makeRef\<close> gives
  without options.
\<close>

theorem makeRef_isCollection_option:
  assumes "makeRef input options = Inr r"
  shows "(truthy (read_prop (or_empty options) ''isCollection'')
            \<longrightarrow> read_prop r ''isCollection'' = Bool True)
       \<and> (\<not> truthy (read_prop (or_empty options) ''isCollection'')
            \<longrightarrow> makeRef input Undefined = Inr r)"
proof (cases "infer_ref (or_empty input)")
  case (Inl e)
  then show ?thesis using assms by (simp add: makeRef_def)
next
  case (Inr t)
  obtain es c l m where t: "t = (es, c, l, m)" by (cases t) auto
  have o: "\<not> nullish (or_empty options)"
    using assms Inr t by (auto simp: makeRef_def get_prop_def split: if_splits)
  show ?thesis
    using assms Inr t o by (auto simp: makeRef_def get_prop_not_nullish)
qed

theorem makeRef_isCollection_option_witness:
  "read_prop (Obj (fmap_of_list
         [(''entities'', Arr [Obj (fmap_of_list [(''type'', Str ''b''), (''id'', Str ''2'')])]),
          (''isCollection'', Bool True), (''links'', Undefined), (''meta'', Undefined)]))
      ''isCollection'' = Bool True"
  using makeRef_isCollection_option [of
     "Obj (fmap_of_list
       [(''data'', Obj (fmap_of_list [(''type'', Str ''b''), (''id'', Str ''2'')]))])"
     "Obj (fmap_of_list [(''isCollection'', Bool True)])"
     "Obj (fmap_of_list
         [(''entities'', Arr [Obj (fmap_of_list [(''type'', Str ''b''), (''id'', Str ''2'')])]),
          (''isCollection'', Bool True), (''links'', Undefined), (''meta'', Undefined)])"]
  by (simp add: makeRef_def infer_ref_def ref_from_data_def type_id_of_def)

section \<open>The reference store: next page of a key that holds no reference\<close>

lemma read_of_not_own:
  "own_prop v k = Undefined \<Longrightarrow> read_prop v k = Undefined \<or> (\<exists>n. read_prop v k = Native n)"
  using inherited_cases [of k] by (cases v) (auto split: option.splits)

lemma concat_of_missing_throws:
  assumes "r = Undefined \<or> (\<exists>n. r = Native n)"
  shows "bind_res (get_prop r ''entities'') (\<lambda>old.
           bind_res (get_prop np ''entities'') (\<lambda>new.
             bind_res (call_concat old new) f)) = Inl TypeError"
  using assms by (cases "nullish np") (auto simp: get_prop_def nullish_def)

text \<open>
  C8. When the reference store has no reference of its own under the data key of a
  next-page success (or bootstrap) event, the reducer throws a \<open>TypeError\<close>: at
  \<open>state[dataKey].entities\<close> when \<open>state[dataKey]\<close> is \<open>undefined\<close>, at the call of
  \<open>concat\<close> when the data key is the name of a member that the store inherits. It
  returns no state at all, so none with an empty reference made up for the key.
\<close>

theorem next_page_without_reference_fails:
  assumes "atype a = JSON_API_SUCCESS \<or> atype a = JSON_API_BOOTSTRAP"
    and "truthy (read_prop (meta a) ''isNextPage'')"
    and "own_prop (or_empty state) (to_string (read_prop (meta a) ''dataKey'')) = Undefined"
  shows "refsReducer state a = Inl TypeError"
proof -
  let ?r = "read_prop (or_empty state) (to_string (read_prop (meta a) ''dataKey''))"
  have m: "\<not> nullish (meta a)"
    using assms(2) by (auto simp: nullish_def)
  have r: "?r = Undefined \<or> (\<exists>n. ?r = Native n)"
    using assms(3) by (rule read_of_not_own)
  show ?thesis
  proof (cases "nullish (payload a)")
    case True
    then show ?thesis
      using assms(1,2) m by (auto simp: refsReducer_def get_prop_not_nullish get_prop_nullish)
  next
    case False
    show ?thesis
    proof (cases "nullish (or_empty state)")
      case True
      then show ?thesis
        using assms(1,2) m False
        by (auto simp: refsReducer_def Let_def get_prop_not_nullish get_prop_nullish)
    next
      case s: False
      then show ?thesis
        using assms(1,2) m False concat_of_missing_throws [OF r]
        by (auto simp: refsReducer_def Let_def get_prop_not_nullish)
    qed
  qed
qed

theorem next_page_without_reference_fails_witness:
  "refsReducer (Obj fmempty)
     \<lparr>atype = JSON_API_SUCCESS,
      meta = Obj (fmap_of_list [(''dataKey'', Str ''feed''), (''isNextPage'', Bool True)]),
      payload = Obj (fmap_of_list [(''newRequestRef'',
        Obj (fmap_of_list [(''entities'', Arr [])]))])\<rparr> = Inl TypeError"
  using next_page_without_reference_fails [of
     "\<lparr>atype = JSON_API_SUCCESS,
      meta = Obj (fmap_of_list [(''dataKey'', Str ''feed''), (''isNextPage'', Bool True)]),
      payload = Obj (fmap_of_list [(''newRequestRef'',
        Obj (fmap_of_list [(''entities'', Arr [])]))])\<rparr>" "Obj fmempty"]
  by simp

section \<open>Delete events with an incomplete ref\<close>

text \<open>
  C9, as stated, fails. A success event whose \<open>refToDelete\<close> lacks its \<open>id\<close> is still a
  success event for the request status reducer, which records it under the data key;
  and when \<open>refToDelete\<close> is missing altogether the reference reducer takes its default
  path and stores \<open>newRequestRef\<close> under the data key.
\<close>

theorem incomplete_delete_changes_stores_counterexample:
  "requestsReducer 7 (Obj fmempty)
     \<lparr>atype = JSON_API_SUCCESS,
      meta = Obj (fmap_of_list [(''dataKey'', Str ''post:1''),
                (''refToDelete'', Obj (fmap_of_list [(''type'', Str ''post'')]))]),
      payload = Obj fmempty\<rparr>
   = Inr (Obj (fmupd ''post:1''
       (Obj (fmap_of_list
          [(''status'', Str ''success''), (''fetchedAt'', Num 7), (''isError'', Bool False),
           (''isLoaded'', Bool True), (''isLoading'', Bool False)])) fmempty))
   \<and> refsReducer (Obj fmempty)
     \<lparr>atype = JSON_API_SUCCESS,
      meta = Obj (fmap_of_list [(''dataKey'', Str ''post:1'')]),
      payload = Obj (fmap_of_list [(''newRequestRef'',
                   Obj (fmap_of_list [(''entities'', Arr [])]))])\<rparr>
   = Inr (Obj (fmupd ''post:1'' (Obj (fmap_of_list [(''entities'', Arr [])])) fmempty))"
  by (simp add: requestsReducer_def refsReducer_def existing_missing)

text \<open>
  C9, amended. A success or bootstrap event that is not a next page, carries no store
  fragment, and whose \<open>refToDelete\<close> has a falsy \<open>type\<close> or no \<open>id\<close> (a missing
  \<open>refToDelete\<close> included) leaves the entity store as it is and throws nothing; when
  \<open>refToDelete\<close> is present (truthy), it leaves the reference store as it is, too.
\<close>

theorem incomplete_delete_keeps_refs_and_entities:
  assumes "atype a = JSON_API_SUCCESS \<or> atype a = JSON_API_BOOTSTRAP"
    and "\<not> truthy (read_prop (meta a) ''isNextPage'')"
    and "rd = read_prop (meta a) ''refToDelete''"
    and "\<not> truthy (read_prop rd ''type'') \<or> read_prop rd ''id'' = Undefined"
    and "lodash_get (payload a) ''storeFragment'' (Obj fmempty) = Obj fmempty"
  shows "entitiesReducer (Obj e) a = Inr (Obj e)
       \<and> (truthy rd \<longrightarrow> refsReducer (Obj r) a = Inr (Obj r))"
proof
  show "entitiesReducer (Obj e) a = Inr (Obj e)"
    using assms by (auto simp: entitiesReducer_def Let_def lodash_get_single)
next
  show "truthy rd \<longrightarrow> refsReducer (Obj r) a = Inr (Obj r)"
  proof
    assume t: "truthy rd"
    then have m: "\<not> nullish (meta a)" and n: "\<not> nullish rd"
      using assms(3) by (auto simp: nullish_def)
    have d: "deleteRefFromEntities rd (Obj r) = Inr (Obj r)"
      using assms(4) t n
      by (auto simp: deleteRefFromEntities_def truthy_or_empty get_prop_not_nullish)
    show "refsReducer (Obj r) a = Inr (Obj r)"
      using assms(1,2,3) t m d by (auto simp: refsReducer_def get_prop_not_nullish)
  qed
qed

theorem incomplete_delete_keeps_refs_and_entities_witness:
  "entitiesReducer (Obj (fmap_of_list [(''post'', Obj (fmap_of_list [(''1'', Obj fmempty)]))]))
     \<lparr>atype = JSON_API_SUCCESS,
      meta = Obj (fmap_of_list [(''dataKey'', Str ''post:1''),
                (''refToDelete'', Obj (fmap_of_list [(''type'', Str ''post'')]))]),
      payload = Obj fmempty\<rparr>
   = Inr (Obj (fmap_of_list [(''post'', Obj (fmap_of_list [(''1'', Obj fmempty)]))]))
   \<and> refsReducer (Obj (fmap_of_list [(''feed'', Obj (fmap_of_list [(''entities'',
         Arr [Obj (fmap_of_list [(''type'', Str ''post''), (''id'', Str ''1'')])])]))]))
     \<lparr>atype = JSON_API_SUCCESS,
      meta = Obj (fmap_of_list [(''dataKey'', Str ''post:1''),
                (''refToDelete'', Obj (fmap_of_list [(''type'', Str ''post'')]))]),
      payload = Obj fmempty\<rparr>
   = Inr (Obj (fmap_of_list [(''feed'', Obj (fmap_of_list [(''entities'',
         Arr [Obj (fmap_of_list [(''type'', Str ''post''), (''id'', Str ''1'')])])]))]))"
  using incomplete_delete_keeps_refs_and_entities [of
     "\<lparr>atype = JSON_API_SUCCESS,
      meta = Obj (fmap_of_list [(''dataKey'', Str ''post:1''),
                (''refToDelete'', Obj (fmap_of_list [(''type'', Str ''post'')]))]),
      payload = Obj fmempty\<rparr>"
     "Obj (fmap_of_list [(''type'', Str ''post'')])"
     "fmap_of_list [(''post'', Obj (fmap_of_list [(''1'', Obj fmempty)]))]"
     "fmap_of_list [(''feed'', Obj (fmap_of_list [(''entities'',
         Arr [Obj (fmap_of_list [(''type'', Str ''post''), (''id'', Str ''1'')])])]))]"]
  by (simp add: lodash_get_plain)

section \<open>The entity store: manual attribute update\<close>

lemma update_missing_entity_throws:
  assumes "atype a = UPDATE_ENTITY" and "or_empty state = Obj m" and "entity_store m"
    and "t = to_string (read_prop (payload a) ''type'')"
    and "i = to_string (read_prop (payload a) ''id'')"
    and "nullish (entity_at (Obj m) t i)"
    and "inherited t = Undefined" and "inherited i = Undefined"
  shows "entitiesReducer state a = Inl TypeError"
proof (cases "nullish (payload a)")
  case True
  then show ?thesis using assms(1) by (simp add: entitiesReducer_def get_prop_nullish)
next
  case False
  show ?thesis
  proof (cases "fmlookup m t")
    case None
    then have "get_prop (read_prop (Obj m) t) i = Inl TypeError"
      using assms(7) by (simp add: get_prop_nullish nullish_def)
    then show ?thesis
      using assms(1,2,4,5) False by (simp add: entitiesReducer_def get_prop_not_nullish)
  next
    case (Some v)
    then obtain tm where tm: "v = Obj tm"
      using assms(3) by (auto simp: entity_store_def)
    have "nullish (read_prop (Obj tm) i)"
      using assms(6,8) Some tm
      by (cases "fmlookup tm i") (simp_all add: entity_at_Obj nullish_def)
    then have "get_prop (read_prop (Obj tm) i) ''attributes'' = Inl TypeError"
      by (rule get_prop_nullish)
    then show ?thesis
      using assms(1,2,4,5) False Some tm
      by (simp add: entitiesReducer_def get_prop_not_nullish)
  qed
qed

lemma update_inherited_id:
  assumes "atype a = UPDATE_ENTITY" and "or_empty state = Obj m" and "\<not> nullish (payload a)"
    and "t = to_string (read_prop (payload a) ''type'')"
    and "i = to_string (read_prop (payload a) ''id'')"
    and "fmlookup m t = Some (Obj tm)" and "fmlookup tm i = None"
    and "inherited i \<noteq> Undefined"
  shows "entitiesReducer state a =
     Inr (Obj (fmupd t (Obj (fmupd i
       (Obj (fmupd ''attributes'' (Obj (spread (read_prop (payload a) ''attributes'')))
          fmempty)) tm)) m))"
proof -
  obtain n where n: "inherited i = Native n"
    using assms(8) inherited_cases [of i] by blast
  show ?thesis
    using assms(1-7) n
    by (simp add: entitiesReducer_def get_prop_not_nullish nullish_def)
qed

lemma update_existing_entity:
  assumes "atype a = UPDATE_ENTITY" and "or_empty state = Obj m" and "\<not> nullish (payload a)"
    and "t = to_string (read_prop (payload a) ''type'')"
    and "i = to_string (read_prop (payload a) ''id'')"
    and "fmlookup m t = Some (Obj tm)" and "fmlookup tm i = Some (Obj e)"
  shows "entitiesReducer state a =
     Inr (Obj (fmupd t (Obj (fmupd i
       (Obj (fmupd ''attributes''
          (Obj (spread (read_prop (Obj e) ''attributes'') ++\<^sub>f
                spread (read_prop (payload a) ''attributes''))) e)) tm)) m))"
  using assms by (simp add: entitiesReducer_def get_prop_not_nullish)

text \<open>
  C10, as stated, fails. The reducer has no test for the record: without one it fails
  only because it reads \<open>attributes\<close> from \<open>undefined\<close>. When the id is the name of a
  member that every object inherits, \<open>state[type][id]\<close> is that member and not
  \<open>undefined\<close>, and the update goes through. The store below holds the type \<open>article\<close>
  with no record; the update of \<open>(article, constructor)\<close> throws nothing and returns a
  store with a record made of the attributes of the payload.
\<close>

theorem update_inherited_id_no_failure_counterexample:
  "entity_at (Obj (fmap_of_list [(''article'', Obj fmempty)])) ''article'' ''constructor''
     = Undefined
   \<and> entitiesReducer (Obj (fmap_of_list [(''article'', Obj fmempty)]))
     \<lparr>atype = UPDATE_ENTITY, meta = Undefined,
      payload = Obj (fmap_of_list [(''type'', Str ''article''), (''id'', Str ''constructor''),
        (''attributes'', Obj (fmap_of_list [(''views'', Num 10)]))])\<rparr>
   = Inr (Obj (fmap_of_list [(''article'', Obj (fmap_of_list [(''constructor'',
       Obj (fmap_of_list [(''attributes'', Obj (fmap_of_list [(''views'', Num 10)]))]))]))]))"
  by (simp add: entity_at_Obj entitiesReducer_def inherited_def object_prototype_def
      get_prop_def nullish_def)

text \<open>
  C10, amended. For an \<open>UPDATE_ENTITY\<close> action on \<open>(t, i)\<close> and an entity store (every
  type maps to an object of records):
  \<^item> when the store holds no record for \<open>(t, i)\<close> and neither \<open>t\<close> nor \<open>i\<close> is the name
    of a member that every object inherits, the reducer throws a \<open>TypeError\<close> and
    returns no state;
  \<^item> when the store has the type \<open>t\<close> but no record under \<open>i\<close>, and \<open>i\<close> is the
    name of an inherited member, the reducer throws nothing: it returns the store
    with a new record under \<open>(t, i)\<close> whose only field is \<open>attributes\<close>, a copy of the
    attributes of the payload;
  \<^item> when the store holds a record for \<open>(t, i)\<close>, the new state holds for \<open>(t, i)\<close> that
    record with its \<open>attributes\<close> replaced by the old attributes overlaid with the
    attributes of the payload, its \<open>relationships\<close> (and every other field) as before,
    and every other \<open>(t', i')\<close> holds what it held.
\<close>

theorem update_entity_merges_or_fails:
  assumes "atype a = UPDATE_ENTITY" and "or_empty state = Obj m" and "entity_store m"
    and "t = to_string (read_prop (payload a) ''type'')"
    and "i = to_string (read_prop (payload a) ''id'')"
  shows "(nullish (entity_at (Obj m) t i) \<and> inherited t = Undefined \<and> inherited i = Undefined
            \<longrightarrow> entitiesReducer state a = Inl TypeError)
       \<and> (\<forall>tm. fmlookup m t = Some (Obj tm) \<and> fmlookup tm i = None
              \<and> inherited i \<noteq> Undefined \<and> \<not> nullish (payload a) \<longrightarrow>
            entitiesReducer state a =
              Inr (Obj (fmupd t (Obj (fmupd i
                (Obj (fmupd ''attributes''
                   (Obj (spread (read_prop (payload a) ''attributes''))) fmempty)) tm)) m)))
       \<and> (\<forall>tm e. fmlookup m t = Some (Obj tm) \<and> fmlookup tm i = Some (Obj e)
              \<and> \<not> nullish (payload a) \<longrightarrow>
            (\<exists>s'. entitiesReducer state a = Inr s'
               \<and> entity_at s' t i =
                   Obj (fmupd ''attributes''
                     (Obj (spread (read_prop (Obj e) ''attributes'') ++\<^sub>f
                           spread (read_prop (payload a) ''attributes''))) e)
               \<and> read_prop (entity_at s' t i) ''relationships''
                   = read_prop (Obj e) ''relationships''
               \<and> (\<forall>t' i'. (t', i') \<noteq> (t, i) \<longrightarrow>
                     entity_at s' t' i' = entity_at (Obj m) t' i')))"
proof (intro conjI impI allI)
  assume "nullish (entity_at (Obj m) t i) \<and> inherited t = Undefined \<and> inherited i = Undefined"
  then show "entitiesReducer state a = Inl TypeError"
    using assms update_missing_entity_throws by blast
next
  fix tm
  assume "fmlookup m t = Some (Obj tm) \<and> fmlookup tm i = None
              \<and> inherited i \<noteq> Undefined \<and> \<not> nullish (payload a)"
  then show "entitiesReducer state a =
              Inr (Obj (fmupd t (Obj (fmupd i
                (Obj (fmupd ''attributes''
                   (Obj (spread (read_prop (payload a) ''attributes''))) fmempty)) tm)) m))"
    using assms(1,2,4,5) update_inherited_id [of a state m t i tm] by blast
next
  fix tm e
  assume h: "fmlookup m t = Some (Obj tm) \<and> fmlookup tm i = Some (Obj e)
              \<and> \<not> nullish (payload a)"
  let ?new = "Obj (fmupd ''attributes''
                     (Obj (spread (read_prop (Obj e) ''attributes'') ++\<^sub>f
                           spread (read_prop (payload a) ''attributes''))) e)"
  let ?s = "Obj (fmupd t (Obj (fmupd i ?new tm)) m)"
  have r: "entitiesReducer state a = Inr ?s"
    using update_existing_entity [of a state m t i tm e] assms(1,2,4,5) h by blast
  have 1: "entity_at ?s t i = ?new"
    by (simp add: entity_at_Obj)
  have 2: "read_prop ?new ''relationships'' = read_prop (Obj e) ''relationships''"
    by simp
  have 3: "\<forall>t' i'. (t', i') \<noteq> (t, i) \<longrightarrow> entity_at ?s t' i' = entity_at (Obj m) t' i'"
    using h by (auto simp: entity_at_Obj)
  show "\<exists>s'. entitiesReducer state a = Inr s'
               \<and> entity_at s' t i = ?new
               \<and> read_prop (entity_at s' t i) ''relationships''
                   = read_prop (Obj e) ''relationships''
               \<and> (\<forall>t' i'. (t', i') \<noteq> (t, i) \<longrightarrow>
                     entity_at s' t' i' = entity_at (Obj m) t' i')"
    using r 1 2 3 by simp
qed

text \<open>The empty store throws on \<open>(article, 1)\<close>; a store with types but no record
  under \<open>toString\<close> makes one up; a store with the record \<open>(article, 1)\<close> overlays its
  attributes.\<close>

theorem update_entity_merges_or_fails_witness:
  "entitiesReducer Undefined
     \<lparr>atype = UPDATE_ENTITY, meta = Undefined,
      payload = Obj (fmap_of_list [(''type'', Str ''article''), (''id'', Str ''1''),
        (''attributes'', Obj (fmap_of_list [(''views'', Num 10)]))])\<rparr> = Inl TypeError
   \<and> entitiesReducer (Obj (fmap_of_list [(''article'', Obj fmempty)]))
     \<lparr>atype = UPDATE_ENTITY, meta = Undefined,
      payload = Obj (fmap_of_list [(''type'', Str ''article''), (''id'', Str ''toString''),
        (''attributes'', Obj (fmap_of_list [(''views'', Num 10)]))])\<rparr>
     = Inr (Obj (fmupd ''article'' (Obj (fmupd ''toString''
         (Obj (fmupd ''attributes'' (Obj (fmap_of_list [(''views'', Num 10)])) fmempty))
         fmempty)) (fmap_of_list [(''article'', Obj fmempty)])))
   \<and> (\<exists>s'. entitiesReducer
        (Obj (fmap_of_list [(''article'', Obj (fmap_of_list [(''1'', Obj (fmap_of_list
           [(''attributes'', Obj (fmap_of_list [(''title'', Str ''A'')])),
            (''relationships'', Obj fmempty)]))]))]))
        \<lparr>atype = UPDATE_ENTITY, meta = Undefined,
         payload = Obj (fmap_of_list [(''type'', Str ''article''), (''id'', Str ''1''),
           (''attributes'', Obj (fmap_of_list [(''views'', Num 10)]))])\<rparr> = Inr s'
      \<and> entity_at s' ''article'' ''1'' =
          Obj (fmap_of_list
            [(''attributes'', Obj (fmap_of_list [(''views'', Num 10), (''title'', Str ''A'')])),
             (''relationships'', Obj fmempty)]))"
proof -
  let ?a = "\<lparr>atype = UPDATE_ENTITY, meta = Undefined,
      payload = Obj (fmap_of_list [(''type'', Str ''article''), (''id'', Str ''1''),
        (''attributes'', Obj (fmap_of_list [(''views'', Num 10)]))])\<rparr>"
  let ?b = "\<lparr>atype = UPDATE_ENTITY, meta = Undefined,
      payload = Obj (fmap_of_list [(''type'', Str ''article''), (''id'', Str ''toString''),
        (''attributes'', Obj (fmap_of_list [(''views'', Num 10)]))])\<rparr>"
  let ?e = "fmap_of_list
           [(''attributes'', Obj (fmap_of_list [(''title'', Str ''A'')])),
            (''relationships'', Obj fmempty)]"
  let ?tm = "fmap_of_list [(''1'', Obj ?e)]"
  let ?m = "fmap_of_list [(''article'', Obj ?tm)]"
  let ?n = "fmap_of_list [(''article'', Obj fmempty)]"
  have s: "entity_store fmempty" "entity_store ?n" "entity_store ?m"
    by (simp_all add: entity_store_def)
  have 1: "entitiesReducer Undefined ?a = Inl TypeError"
    using update_entity_merges_or_fails [of ?a Undefined fmempty "''article''" "''1''"] s(1)
    by (simp add: entity_at_Obj nullish_def inherited_def object_prototype_def)
  have 2: "entitiesReducer (Obj ?n) ?b
     = Inr (Obj (fmupd ''article'' (Obj (fmupd ''toString''
         (Obj (fmupd ''attributes'' (Obj (fmap_of_list [(''views'', Num 10)])) fmempty))
         fmempty)) ?n))"
    using update_entity_merges_or_fails [of ?b "Obj ?n" ?n "''article''" "''toString''",
        THEN conjunct2, THEN conjunct1, rule_format, of fmempty] s(2)
    by (simp add: nullish_def inherited_def object_prototype_def)
  have 3: "\<exists>s'. entitiesReducer (Obj ?m) ?a = Inr s'
      \<and> entity_at s' ''article'' ''1'' =
          Obj (fmap_of_list
            [(''attributes'', Obj (fmap_of_list [(''views'', Num 10), (''title'', Str ''A'')])),
             (''relationships'', Obj fmempty)])"
    using update_entity_merges_or_fails [of ?a "Obj ?m" ?m "''article''" "''1''",
        THEN conjunct2, THEN conjunct2, rule_format, of ?tm ?e] s(3)
    by (simp add: nullish_def) blast
  show ?thesis using 1 2 3 by blast
qed

section \<open>The entity store: merging a store fragment\<close>





















end
